theory Spec2Isabelle
  imports Complex_Main
begin

section \<open>Value records (pkg/types/order.go)\<close>

text \<open>
  \<^verbatim>\<open>OrderType\<close>, \<^verbatim>\<open>OrderSide\<close> and \<^verbatim>\<open>OrderStatus\<close> are Go string types, so any
  string is a value of them (the zero value is the empty string); the named constants
  are abbreviations for their literals. The \<^verbatim>\<open>float64\<close> fields are modelled as
  \<open>real\<close>, that is, with exact comparison, addition and subtraction (the prices
  and quantities of the instances below are small integers, on which \<^verbatim>\<open>float64\<close>
  is exact as well). The wall-clock fields (\<^verbatim>\<open>CreatedAt\<close>, \<^verbatim>\<open>UpdatedAt\<close>,
  \<^verbatim>\<open>ExecutedAt\<close>, the snapshot's \<^verbatim>\<open>Timestamp\<close>) and the random
  \<^verbatim>\<open>Trade.ID\<close> are left out: nothing in the engine reads them.
\<close>

type_synonym OrderType = string
type_synonym OrderSide = string
type_synonym OrderStatus = string

abbreviation LimitOrder :: OrderType where "LimitOrder \<equiv> ''LIMIT''"
abbreviation MarketOrder :: OrderType where "MarketOrder \<equiv> ''MARKET''"

abbreviation BuyOrder :: OrderSide where "BuyOrder \<equiv> ''BUY''"
abbreviation SellOrder :: OrderSide where "SellOrder \<equiv> ''SELL''"

abbreviation OrderStatusNew :: OrderStatus where "OrderStatusNew \<equiv> ''NEW''"
abbreviation OrderStatusPartial :: OrderStatus where "OrderStatusPartial \<equiv> ''PARTIAL''"
abbreviation OrderStatusFilled :: OrderStatus where "OrderStatusFilled \<equiv> ''FILLED''"
abbreviation OrderStatusCancelled :: OrderStatus where "OrderStatusCancelled \<equiv> ''CANCELLED''"
abbreviation OrderStatusRejected :: OrderStatus where "OrderStatusRejected \<equiv> ''REJECTED''"

record Order =
  ID :: string
  UserID :: string
  Symbol :: string
  Type :: OrderType
  Side :: OrderSide
  Price :: real
  Quantity :: real
  FilledQty :: real
  RemainingQty :: real
  Status :: OrderStatus
  StopPrice :: real

record Trade =
  TradeSymbol :: string
  BuyOrderID :: string
  SellOrderID :: string
  TradePrice :: real
  TradeQuantity :: real
  BuyerUserID :: string
  SellerUserID :: string

text \<open>\<^verbatim>\<open>OrderBookLevel\<close>: price, quantity, number of orders.\<close>

type_synonym OrderBookLevel = "real \<times> real \<times> nat"

text \<open>
  Orders are passed and stored as \<^verbatim>\<open>*types.Order\<close>: the caller, the id map of the
  book and the price levels share one object, and the engine mutates it in place. The
  store maps the address of an order to its current value.
\<close>

type_synonym addr = nat
type_synonym store = "addr \<Rightarrow> Order"

datatype error =
  OrderAlreadyExists string
  | OrderNotFound string
  | OrderAlreadyCancelled string
  | InvalidSymbol string
  | OrderBookNotFound string
  | MarketOrderNotFilled

section \<open>The order book (package orderbook)\<close>

record priceLevel =
  price :: real
  orders :: "addr list"
  volume :: real

text \<open>
  \<^verbatim>\<open>bids\<close> and \<^verbatim>\<open>asks\<close> are the slices of the two heap types, in slice order;
  \<open>orders_map\<close> is the field \<^verbatim>\<open>orders map[string]*types.Order\<close> (renamed, since
  a price level has a field \<^verbatim>\<open>orders\<close> too). The mutex is left out: every operation
  below runs from lock to unlock.
\<close>

record OrderBook =
  symbol :: string
  bids :: "priceLevel list"
  asks :: "priceLevel list"
  orders_map :: "string \<rightharpoonup> addr"

definition NewOrderBook :: "string \<Rightarrow> OrderBook" where
  "NewOrderBook smb = \<lparr>symbol = smb, bids = [], asks = [], orders_map = Map.empty\<rparr>"

text \<open>\<^verbatim>\<open>buyPriceLevels.Less\<close> and \<^verbatim>\<open>sellPriceLevels.Less\<close>, on the two levels compared.\<close>

definition buy_Less :: "priceLevel \<Rightarrow> priceLevel \<Rightarrow> bool" where
  "buy_Less a b = (price a > price b)"

definition sell_Less :: "priceLevel \<Rightarrow> priceLevel \<Rightarrow> bool" where
  "sell_Less a b = (price a < price b)"

text \<open>
  \<^verbatim>\<open>func (pl priceLevels) Push(x interface{}) { pl = append(pl, x.(*priceLevel)) }\<close>
  has a value receiver: \<^verbatim>\<open>pl\<close> is a copy of the slice header, the result of
  \<^verbatim>\<open>append\<close> is assigned to that copy, and the copy is dropped on return. The slice
  the method was called on keeps its length and its elements.
\<close>

definition priceLevels_Push :: "priceLevel list \<Rightarrow> priceLevel \<Rightarrow> priceLevel list" where
  "priceLevels_Push pl x = (let appended = pl @ [x] in pl)"

text \<open>
  \<^verbatim>\<open>container/heap\<close>: \<^verbatim>\<open>up(h, j)\<close> moves element \<open>j\<close> towards the root while it is
  \<^verbatim>\<open>Less\<close> than its parent \<open>(j - 1) / 2\<close>. On \<open>nat\<close>, \<open>(0 - 1) div 2 = 0\<close>, as
  Go's truncating \<^verbatim>\<open>(0 - 1) / 2\<close>.
\<close>

function up :: "(priceLevel \<Rightarrow> priceLevel \<Rightarrow> bool) \<Rightarrow> priceLevel list \<Rightarrow> nat \<Rightarrow> priceLevel list" where
  "up lt h j =
     (let i = (j - 1) div 2 in
      if i = j \<or> \<not> lt (h ! j) (h ! i) then h
      else up lt (h[i := h ! j, j := h ! i]) i)"
  by pat_completeness auto
termination
  by (relation "measure (\<lambda>(lt, h, j). j)") auto

declare up.simps [simp del]

text \<open>
  \<^verbatim>\<open>heap.Push(h, x)\<close> is \<^verbatim>\<open>h.Push(x); up(h, h.Len()-1)\<close>. With \<^verbatim>\<open>Len() = 0\<close> the
  call is \<^verbatim>\<open>up(h, -1)\<close>, whose first test \<^verbatim>\<open>i == j\<close> holds (\<open>i = -2 / 2 = -1\<close>).
  \<^verbatim>\<open>AddOrder\<close> passes the \<^verbatim>\<open>*priceLevels\<close> of the order's side, whose only
  \<^verbatim>\<open>Push\<close> is the one above. \<^verbatim>\<open>Less\<close> is declared on the two heap types that
  embed \<^verbatim>\<open>priceLevels\<close>, not on \<^verbatim>\<open>priceLevels\<close> itself; the model takes the
  comparison of the side's heap type. It is applied only when the slice is not empty.
\<close>

definition heap_Push :: "(priceLevel \<Rightarrow> priceLevel \<Rightarrow> bool) \<Rightarrow> priceLevel list \<Rightarrow> priceLevel \<Rightarrow> priceLevel list" where
  "heap_Push lt levels x =
     (let h = priceLevels_Push levels x in
      if length h = 0 then h else up lt h (length h - 1))"

text \<open>The index of the first level with the given price (the \<^verbatim>\<open>range\<close> loops with \<^verbatim>\<open>break\<close>).\<close>

fun find_level :: "priceLevel list \<Rightarrow> real \<Rightarrow> nat option" where
  "find_level [] pr = None"
| "find_level (l # ls) pr = (if price l = pr then Some 0 else map_option Suc (find_level ls pr))"

text \<open>The index of the first order of a level with the given id.\<close>

fun find_order :: "store \<Rightarrow> addr list \<Rightarrow> string \<Rightarrow> nat option" where
  "find_order h [] oid = None"
| "find_order h (a # as) oid = (if ID (h a) = oid then Some 0 else map_option Suc (find_order h as oid))"

text \<open>\<^verbatim>\<open>append(s[:i], s[i+1:]...)\<close>\<close>

definition remove_at :: "nat \<Rightarrow> 'a list \<Rightarrow> 'a list" where
  "remove_at i xs = take i xs @ drop (Suc i) xs"

text \<open>
  \<^verbatim>\<open>OrderBook.AddOrder\<close>. The order is re-initialised and entered in the id map. When a
  level of its price exists on its side, the order is appended to it and the level's
  volume grows. Otherwise a new level is created and handed to \<^verbatim>\<open>heap.Push\<close>; the
  order and the volume go to that new level object, which the book's slice does not
  hold.
\<close>

definition AddOrder :: "store \<Rightarrow> OrderBook \<Rightarrow> addr \<Rightarrow> error option \<times> store \<times> OrderBook" where
  "AddOrder h ob p =
     (if orders_map ob (ID (h p)) \<noteq> None then (Some (OrderAlreadyExists (ID (h p))), h, ob)
      else
        let h1 = h(p := (h p)\<lparr>Status := OrderStatusNew, RemainingQty := Quantity (h p), FilledQty := 0\<rparr>);
            ob1 = ob\<lparr>orders_map := (orders_map ob)(ID (h1 p) \<mapsto> p)\<rparr>;
            buy = (Side (h1 p) = BuyOrder);
            levels = (if buy then bids ob1 else asks ob1);
            levels' = (case find_level levels (Price (h1 p)) of
                         Some i \<Rightarrow> levels[i := (levels ! i)\<lparr>orders := orders (levels ! i) @ [p],
                                                           volume := volume (levels ! i) + RemainingQty (h1 p)\<rparr>]
                       | None \<Rightarrow> heap_Push (if buy then buy_Less else sell_Less) levels
                                   \<lparr>price = Price (h1 p), orders = [], volume = 0\<rparr>)
        in (None, h1, if buy then ob1\<lparr>bids := levels'\<rparr> else ob1\<lparr>asks := levels'\<rparr>))"

text \<open>
  \<^verbatim>\<open>OrderBook.CancelOrder\<close>. The id map is read and never written. The order is taken
  out of the first level of its price, at the first position holding its id.
\<close>

definition CancelOrder :: "store \<Rightarrow> OrderBook \<Rightarrow> string \<Rightarrow> error option \<times> store \<times> OrderBook" where
  "CancelOrder h ob orderID =
     (case orders_map ob orderID of
        None \<Rightarrow> (Some (OrderNotFound orderID), h, ob)
      | Some p \<Rightarrow>
          if Status (h p) = OrderStatusCancelled then (Some (OrderAlreadyCancelled orderID), h, ob)
          else
            let h1 = h(p := (h p)\<lparr>Status := OrderStatusCancelled\<rparr>);
                buy = (Side (h1 p) = BuyOrder);
                levels = (if buy then bids ob else asks ob);
                levels' = (case find_level levels (Price (h1 p)) of
                             None \<Rightarrow> levels
                           | Some li \<Rightarrow>
                               (case find_order h1 (orders (levels ! li)) orderID of
                                  None \<Rightarrow> levels
                                | Some i \<Rightarrow> levels[li := (levels ! li)\<lparr>orders := remove_at i (orders (levels ! li)),
                                                                         volume := volume (levels ! li) - RemainingQty (h1 p)\<rparr>]))
            in (None, h1, if buy then ob\<lparr>bids := levels'\<rparr> else ob\<lparr>asks := levels'\<rparr>))"

text \<open>\<^verbatim>\<open>OrderBook.GetOrder\<close>\<close>

definition GetOrder :: "OrderBook \<Rightarrow> string \<Rightarrow> error + addr" where
  "GetOrder ob orderID = (case orders_map ob orderID of None \<Rightarrow> Inl (OrderNotFound orderID) | Some p \<Rightarrow> Inr p)"

text \<open>
  \<^verbatim>\<open>GetBestBid\<close> and \<^verbatim>\<open>GetBestAsk\<close>: \<open>Inl\<close> is the error, \<open>Inr None\<close> is
  \<^verbatim>\<open>(nil, nil)\<close>, \<open>Inr (Some p)\<close> the first order of the first level.
\<close>

definition best_of :: "priceLevel list \<Rightarrow> addr option" where
  "best_of levels =
     (case levels of
        [] \<Rightarrow> None
      | level # _ \<Rightarrow> (case orders level of [] \<Rightarrow> None | p # _ \<Rightarrow> Some p))"

definition GetBestBid :: "OrderBook \<Rightarrow> string \<Rightarrow> error + addr option" where
  "GetBestBid ob smb = (if smb \<noteq> symbol ob then Inl (InvalidSymbol smb) else Inr (best_of (bids ob)))"

definition GetBestAsk :: "OrderBook \<Rightarrow> string \<Rightarrow> error + addr option" where
  "GetBestAsk ob smb = (if smb \<noteq> symbol ob then Inl (InvalidSymbol smb) else Inr (best_of (asks ob)))"

text \<open>\<^verbatim>\<open>GetOrderBookSnapshot\<close>: the levels that hold an order, in slice order.\<close>

definition snapshot_side :: "priceLevel list \<Rightarrow> OrderBookLevel list" where
  "snapshot_side levels =
     map (\<lambda>level. (price level, volume level, length (orders level)))
         (filter (\<lambda>level. length (orders level) > 0) levels)"

definition GetOrderBookSnapshot :: "OrderBook \<Rightarrow> string \<Rightarrow> error + (OrderBookLevel list \<times> OrderBookLevel list)" where
  "GetOrderBookSnapshot ob smb =
     (if smb \<noteq> symbol ob then Inl (InvalidSymbol smb)
      else Inr (snapshot_side (bids ob), snapshot_side (asks ob)))"

section \<open>The matching engine (pkg/matching/engine.go)\<close>

text \<open>The function \<^verbatim>\<open>min\<close> of the package, and \<^verbatim>\<open>updateOrderStatus\<close>.\<close>

definition min_qty :: "real \<Rightarrow> real \<Rightarrow> real" where
  "min_qty a b = (if a < b then a else b)"

definition updateOrderStatus :: "store \<Rightarrow> addr \<Rightarrow> store" where
  "updateOrderStatus h p =
     (if RemainingQty (h p) = 0 then h(p := (h p)\<lparr>Status := OrderStatusFilled\<rparr>)
      else if FilledQty (h p) > 0 then h(p := (h p)\<lparr>Status := OrderStatusPartial\<rparr>)
      else h)"

definition make_trade :: "Order \<Rightarrow> Order \<Rightarrow> real \<Rightarrow> real \<Rightarrow> Trade" where
  "make_trade order matchingOrder tradePrice tradeQty =
     (if Side order = BuyOrder then
        \<lparr>TradeSymbol = Symbol order, BuyOrderID = ID order, SellOrderID = ID matchingOrder,
         TradePrice = tradePrice, TradeQuantity = tradeQty,
         BuyerUserID = UserID order, SellerUserID = UserID matchingOrder\<rparr>
      else
        \<lparr>TradeSymbol = Symbol order, BuyOrderID = ID matchingOrder, SellOrderID = ID order,
         TradePrice = tradePrice, TradeQuantity = tradeQty,
         BuyerUserID = UserID matchingOrder, SellerUserID = UserID order\<rparr>)"

text \<open>The two field updates of one order in the loop body.\<close>

definition fill :: "store \<Rightarrow> addr \<Rightarrow> real \<Rightarrow> store" where
  "fill h p q = h(p := (h p)\<lparr>FilledQty := FilledQty (h p) + q, RemainingQty := RemainingQty (h p) - q\<rparr>)"

text \<open>
  The parts of the loop body of \<^verbatim>\<open>matchOrder\<close>: the order on the other side that
  the book offers, the two price tests that leave the loop (made for
  \<^verbatim>\<open>order.Type == types.LimitOrder\<close> only), the trade, and the store after the four
  field updates and the two status updates (the taker's fields first; the maker is read
  from the store the taker's update left).
\<close>

definition best_counterparty :: "store \<Rightarrow> OrderBook \<Rightarrow> addr \<Rightarrow> error + addr option" where
  "best_counterparty h ob p =
     (if Side (h p) = BuyOrder then GetBestAsk ob (Symbol (h p)) else GetBestBid ob (Symbol (h p)))"

definition price_break :: "Order \<Rightarrow> Order \<Rightarrow> bool" where
  "price_break order matchingOrder =
     (Type order = LimitOrder \<and>
      ((Side order = BuyOrder \<and> Price order < Price matchingOrder) \<or>
       (Side order = SellOrder \<and> Price order > Price matchingOrder)))"

definition trade_of :: "store \<Rightarrow> addr \<Rightarrow> addr \<Rightarrow> Trade" where
  "trade_of h p m =
     (let tradeQty = min_qty (RemainingQty (h p)) (RemainingQty (h m));
          tradePrice = Price (h m)
      in make_trade (h p) (h m) tradePrice tradeQty)"

definition execute :: "store \<Rightarrow> addr \<Rightarrow> addr \<Rightarrow> store" where
  "execute h p m =
     (let tradeQty = min_qty (RemainingQty (h p)) (RemainingQty (h m));
          h1 = fill h p tradeQty;
          h2 = fill h1 m tradeQty;
          h3 = updateOrderStatus h2 p
      in updateOrderStatus h3 m)"

text \<open>
  The loop of \<^verbatim>\<open>matchOrder\<close>, with the trades so far as accumulator. The loop has no
  bound of its own, so the model counts iterations: \<open>None\<close> means that the given
  number of iterations did not reach an exit. A result is the returned trades, the
  returned error, and the store and book as the call leaves them. When
  \<^verbatim>\<open>CancelOrder\<close> fails, the trade of that iteration is not among the returned ones.
\<close>

type_synonym match_result = "Trade list \<times> error option \<times> store \<times> OrderBook"

fun matchOrder_loop :: "nat \<Rightarrow> store \<Rightarrow> OrderBook \<Rightarrow> addr \<Rightarrow> Trade list \<Rightarrow> match_result option" where
  "matchOrder_loop 0 h ob p trades = None"
| "matchOrder_loop (Suc n) h ob p trades =
     (if \<not> RemainingQty (h p) > 0 then Some (trades, None, h, ob)
      else
        case best_counterparty h ob p of
          Inl err \<Rightarrow> Some (trades, Some err, h, ob)
        | Inr None \<Rightarrow> Some (trades, None, h, ob)
        | Inr (Some m) \<Rightarrow>
            if price_break (h p) (h m) then Some (trades, None, h, ob)
            else if Status (execute h p m m) = OrderStatusFilled then
              (case CancelOrder (execute h p m) ob (ID (execute h p m m)) of
                 (Some err, h5, ob5) \<Rightarrow> Some (trades, Some err, h5, ob5)
               | (None, h5, ob5) \<Rightarrow> matchOrder_loop n h5 ob5 p (trades @ [trade_of h p m]))
            else matchOrder_loop n (execute h p m) ob p (trades @ [trade_of h p m]))"

definition matchOrder :: "nat \<Rightarrow> store \<Rightarrow> OrderBook \<Rightarrow> addr \<Rightarrow> match_result option" where
  "matchOrder fuel h ob p = matchOrder_loop fuel h ob p []"

text \<open>
  \<^verbatim>\<open>processMarketOrder\<close> and \<^verbatim>\<open>ProcessOrder\<close>. The engine state is the map
  \<^verbatim>\<open>orderBooks\<close>; the book of the order's symbol is created on first use and, being
  shared by reference, carries the changes of the call. The result is the pair
  \<^verbatim>\<open>([]*Trade, error)\<close>; \<^verbatim>\<open>return nil, err\<close> returns no trades.
  \<open>process_on_book\<close> is the body of \<^verbatim>\<open>ProcessOrder\<close> once the book is at hand.
\<close>

type_synonym books = "string \<rightharpoonup> OrderBook"
type_synonym process_result = "(Trade list \<times> error option) \<times> store \<times> OrderBook"

definition processMarketOrder :: "nat \<Rightarrow> store \<Rightarrow> OrderBook \<Rightarrow> addr \<Rightarrow> process_result option" where
  "processMarketOrder fuel h ob p =
     (case matchOrder fuel h ob p of
        None \<Rightarrow> None
      | Some (trades, Some err, h', ob') \<Rightarrow> Some (([], Some err), h', ob')
      | Some (trades, None, h', ob') \<Rightarrow>
          if RemainingQty (h' p) > 0
            then Some ((trades, Some MarketOrderNotFilled), h'(p := (h' p)\<lparr>Status := OrderStatusRejected\<rparr>), ob')
          else Some ((trades, None), h', ob'))"

definition process_on_book :: "nat \<Rightarrow> store \<Rightarrow> OrderBook \<Rightarrow> addr \<Rightarrow> process_result option" where
  "process_on_book fuel h ob p =
     (if Type (h p) = MarketOrder then processMarketOrder fuel h ob p
      else
        case matchOrder fuel h ob p of
          None \<Rightarrow> None
        | Some (trades, Some err, h', ob') \<Rightarrow> Some (([], Some err), h', ob')
        | Some (trades, None, h', ob') \<Rightarrow>
            if RemainingQty (h' p) > 0 then
              (case AddOrder h' ob' p of
                 (Some err, h'', ob'') \<Rightarrow> Some ((trades, Some err), h'', ob'')
               | (None, h'', ob'') \<Rightarrow> Some ((trades, None), h'', ob''))
            else Some ((trades, None), h', ob'))"

definition ProcessOrder :: "nat \<Rightarrow> store \<Rightarrow> books \<Rightarrow> addr \<Rightarrow> ((Trade list \<times> error option) \<times> store \<times> books) option" where
  "ProcessOrder fuel h obs p =
     (let smb = Symbol (h p);
          ob = (case obs smb of Some ob \<Rightarrow> ob | None \<Rightarrow> NewOrderBook smb)
      in case process_on_book fuel h ob p of
           None \<Rightarrow> None
         | Some (res, h', ob') \<Rightarrow> Some (res, h', obs(smb \<mapsto> ob')))"

definition NewMatchingEngine :: books where
  "NewMatchingEngine = Map.empty"

text \<open>\<^verbatim>\<open>MatchingEngine.GetOrderBook\<close>\<close>

definition GetOrderBook :: "books \<Rightarrow> string \<Rightarrow> error + (OrderBookLevel list \<times> OrderBookLevel list)" where
  "GetOrderBook obs smb =
     (case obs smb of
        None \<Rightarrow> Inl (OrderBookNotFound smb)
      | Some ob \<Rightarrow> GetOrderBookSnapshot ob smb)"

section \<open>Properties of a book, and the states the scenarios run on\<close>

text \<open>The levels of a side, as \<^verbatim>\<open>AddOrder\<close> and \<^verbatim>\<open>CancelOrder\<close> select them: the
  bids for a BUY order, the asks for any other.\<close>

definition side_levels :: "OrderSide \<Rightarrow> OrderBook \<Rightarrow> priceLevel list" where
  "side_levels sd ob = (if sd = BuyOrder then bids ob else asks ob)"

text \<open>The sum of the remaining quantities of the orders of a level, and the books whose
  levels all carry that sum as their volume.\<close>

definition level_remaining :: "store \<Rightarrow> priceLevel \<Rightarrow> real" where
  "level_remaining h level = sum_list (map (\<lambda>a. RemainingQty (h a)) (orders level))"

definition volume_consistent :: "store \<Rightarrow> OrderBook \<Rightarrow> bool" where
  "volume_consistent h ob = list_all (\<lambda>level. volume level = level_remaining h level) (bids ob @ asks ob)"

text \<open>The engines none of whose books has a price level.\<close>

definition no_levels :: "books \<Rightarrow> bool" where
  "no_levels obs = (\<forall>smb ob. obs smb = Some ob \<longrightarrow> bids ob = [] \<and> asks ob = [])"

text \<open>
  An order of symbol \<open>X\<close> as a submission presents it: status NEW, nothing filled, the
  whole quantity remaining. (\<^verbatim>\<open>CreateOrder\<close> of the HTTP layer leaves
  \<^verbatim>\<open>RemainingQty\<close> at its zero value; see \<open>ProcessOrder_nothing_remaining\<close>.)
\<close>

definition new_order :: "string \<Rightarrow> OrderType \<Rightarrow> OrderSide \<Rightarrow> real \<Rightarrow> real \<Rightarrow> Order" where
  "new_order i ty sd pr q =
     \<lparr>ID = i, UserID = ''user-'' @ i, Symbol = ''X'', Type = ty, Side = sd, Price = pr, Quantity = q,
      FilledQty = 0, RemainingQty = q, Status = OrderStatusNew, StopPrice = 0\<rparr>"

definition no_orders :: store where
  "no_orders = (\<lambda>a. new_order [] [] [] 0 0)"

text \<open>A book of symbol \<open>X\<close> with the given levels and id map.\<close>

definition book_X :: "priceLevel list \<Rightarrow> priceLevel list \<Rightarrow> (string \<rightharpoonup> addr) \<Rightarrow> OrderBook" where
  "book_X bs as m = \<lparr>symbol = ''X'', bids = bs, asks = as, orders_map = m\<rparr>"

text \<open>What a scenario observes at its end: the result of the last submission, the
  orders at the first addresses, and the snapshot of book \<open>X\<close>.\<close>

type_synonym snapshot = "error + (OrderBookLevel list \<times> OrderBookLevel list)"

text \<open>Scenario S1: BUY LIMIT 100 @ 10, then SELL LIMIT 60 @ 10, on a new engine.\<close>

definition S1_store :: store where
  "S1_store = no_orders
     (0 := new_order ''buy'' LimitOrder BuyOrder 10 100,
      1 := new_order ''sell'' LimitOrder SellOrder 10 60)"

definition S1_run :: "((Trade list \<times> error option) \<times> Order \<times> Order \<times> snapshot) option" where
  "S1_run =
     (case ProcessOrder 3 S1_store NewMatchingEngine 0 of
        None \<Rightarrow> None
      | Some (r1, h1, obs1) \<Rightarrow>
          (case ProcessOrder 3 h1 obs1 1 of
             None \<Rightarrow> None
           | Some (r2, h2, obs2) \<Rightarrow> Some (r2, h2 0, h2 1, GetOrderBook obs2 ''X'')))"

text \<open>The same sell order, run on a book that holds the buy order on a bid level.\<close>

definition S1_resting :: OrderBook where
  "S1_resting = book_X [\<lparr>price = 10, orders = [0], volume = 100\<rparr>] [] [''buy'' \<mapsto> 0]"

definition S1_on_resting :: "((Trade list \<times> error option) \<times> Order \<times> Order \<times> snapshot) option" where
  "S1_on_resting =
     map_option (\<lambda>(r, h, ob). (r, h 0, h 1, GetOrderBookSnapshot ob ''X''))
       (process_on_book 3 S1_store S1_resting 1)"

text \<open>Scenario S3: SELL LIMIT 10 @ 5, then BUY MARKET 25, on a new engine; and the
  market order on a book that holds the sell order on an ask level.\<close>

definition S3_store :: store where
  "S3_store = no_orders
     (0 := new_order ''sell'' LimitOrder SellOrder 5 10,
      1 := new_order ''buy'' MarketOrder BuyOrder 0 25)"

definition S3_run :: "((Trade list \<times> error option) \<times> Order \<times> Order \<times> snapshot) option" where
  "S3_run =
     (case ProcessOrder 3 S3_store NewMatchingEngine 0 of
        None \<Rightarrow> None
      | Some (r1, h1, obs1) \<Rightarrow>
          (case ProcessOrder 3 h1 obs1 1 of
             None \<Rightarrow> None
           | Some (r2, h2, obs2) \<Rightarrow> Some (r2, h2 0, h2 1, GetOrderBook obs2 ''X'')))"

definition S3_resting :: OrderBook where
  "S3_resting = book_X [] [\<lparr>price = 5, orders = [0], volume = 10\<rparr>] [''sell'' \<mapsto> 0]"

definition S3_on_resting :: "((Trade list \<times> error option) \<times> Order \<times> Order \<times> snapshot) option" where
  "S3_on_resting =
     map_option (\<lambda>(r, h, ob). (r, h 0, h 1, GetOrderBookSnapshot ob ''X''))
       (process_on_book 3 S3_store S3_resting 1)"

text \<open>Scenario S4: SELL LIMIT 10 @ 7 as A, SELL LIMIT 10 @ 7 as B, then BUY LIMIT
  10 @ 7, on a new engine; and the buy order on a book that holds A and B, in this
  order, on one ask level.\<close>

definition S4_store :: store where
  "S4_store = no_orders
     (0 := new_order ''A'' LimitOrder SellOrder 7 10,
      1 := new_order ''B'' LimitOrder SellOrder 7 10,
      2 := new_order ''buy'' LimitOrder BuyOrder 7 10)"

definition S4_run :: "((Trade list \<times> error option) \<times> (Order \<times> Order \<times> Order) \<times> snapshot) option" where
  "S4_run =
     (case ProcessOrder 3 S4_store NewMatchingEngine 0 of
        None \<Rightarrow> None
      | Some (r1, h1, obs1) \<Rightarrow>
          (case ProcessOrder 3 h1 obs1 1 of
             None \<Rightarrow> None
           | Some (r2, h2, obs2) \<Rightarrow>
               (case ProcessOrder 3 h2 obs2 2 of
                  None \<Rightarrow> None
                | Some (r3, h3, obs3) \<Rightarrow> Some (r3, (h3 0, h3 1, h3 2), GetOrderBook obs3 ''X''))))"

definition S4_resting :: OrderBook where
  "S4_resting = book_X [] [\<lparr>price = 7, orders = [0, 1], volume = 20\<rparr>] [''A'' \<mapsto> 0, ''B'' \<mapsto> 1]"

definition S4_on_resting :: "((Trade list \<times> error option) \<times> (Order \<times> Order \<times> Order) \<times> snapshot \<times> priceLevel list) option" where
  "S4_on_resting =
     map_option (\<lambda>(r, h, ob). (r, (h 0, h 1, h 2), GetOrderBookSnapshot ob ''X'', asks ob))
       (process_on_book 3 S4_store S4_resting 2)"

text \<open>Scenario S2: SELL LIMIT 50 @ 11, SELL LIMIT 50 @ 12, then BUY LIMIT 80 @ 12, on a
  new engine; and the buy order on a book that holds the two sell orders on two ask
  levels.\<close>

definition S2_store :: store where
  "S2_store = no_orders
     (0 := new_order ''sell-11'' LimitOrder SellOrder 11 50,
      1 := new_order ''sell-12'' LimitOrder SellOrder 12 50,
      2 := new_order ''buy'' LimitOrder BuyOrder 12 80)"

definition S2_run :: "((Trade list \<times> error option) \<times> (Order \<times> Order \<times> Order) \<times> snapshot) option" where
  "S2_run =
     (case ProcessOrder 3 S2_store NewMatchingEngine 0 of
        None \<Rightarrow> None
      | Some (r1, h1, obs1) \<Rightarrow>
          (case ProcessOrder 3 h1 obs1 1 of
             None \<Rightarrow> None
           | Some (r2, h2, obs2) \<Rightarrow>
               (case ProcessOrder 3 h2 obs2 2 of
                  None \<Rightarrow> None
                | Some (r3, h3, obs3) \<Rightarrow> Some (r3, (h3 0, h3 1, h3 2), GetOrderBook obs3 ''X''))))"

definition S2_resting :: OrderBook where
  "S2_resting = book_X []
     [\<lparr>price = 11, orders = [0], volume = 50\<rparr>, \<lparr>price = 12, orders = [1], volume = 50\<rparr>]
     [''sell-11'' \<mapsto> 0, ''sell-12'' \<mapsto> 1]"

text \<open>The match of the buy order with the first sell order alone, and the whole call of
  \<^verbatim>\<open>matchOrder\<close>: the statuses of the first sell order and of the buy order, the
  ask levels, and the entry of the first sell order in the id map.\<close>

definition S2_first_match :: "OrderStatus \<times> real" where
  "S2_first_match = (Status (execute S2_store 2 0 0), RemainingQty (execute S2_store 2 0 0))"

definition S2_on_resting :: "(Trade list \<times> error option \<times> OrderStatus \<times> OrderStatus \<times> priceLevel list \<times> addr option) option" where
  "S2_on_resting =
     map_option (\<lambda>(ts, e, h, ob). (ts, e, Status (h 0), Status (h 2), asks ob, orders_map ob ''sell-11''))
       (matchOrder 3 S2_store S2_resting 2)"






text \<open>Orders that a validation of price and quantity would refuse.\<close>

definition C6_store :: store where
  "C6_store = no_orders
     (0 := new_order ''price-0'' LimitOrder BuyOrder 0 10,
      1 := new_order ''quantity-0'' LimitOrder SellOrder 10 0,
      2 := new_order ''quantity-neg'' MarketOrder SellOrder 10 (- 5))"

definition C6_submit :: "addr \<Rightarrow> string \<Rightarrow> ((Trade list \<times> error option) \<times> addr option option) option" where
  "C6_submit p i =
     map_option (\<lambda>(r, h, obs). (r, map_option (\<lambda>ob. orders_map ob i) (obs ''X'')))
       (ProcessOrder 1 C6_store NewMatchingEngine p)"

text \<open>Two order objects with one id, the first of them entered in the book.\<close>

definition C6_dup_store :: store where
  "C6_dup_store = no_orders
     (0 := new_order ''dup'' LimitOrder BuyOrder 5 10,
      1 := new_order ''dup'' LimitOrder SellOrder 6 10)"

definition C6_dup_books :: books where
  "C6_dup_books = [''X'' \<mapsto> book_X [] [] [''dup'' \<mapsto> 0]]"




text \<open>One order submitted to a new engine and then cancelled on its book. Observed: the
  error of the cancellation, the order's status, its entry in the id map, and the two
  sides.\<close>

definition C9_store :: store where
  "C9_store = no_orders(0 := new_order ''A'' LimitOrder BuyOrder 5 10)"

definition C9_run :: "(error option \<times> OrderStatus \<times> addr option \<times> priceLevel list \<times> priceLevel list) option" where
  "C9_run =
     (case ProcessOrder 1 C9_store NewMatchingEngine 0 of
        None \<Rightarrow> None
      | Some (r, h, obs) \<Rightarrow>
          (case obs ''X'' of
             None \<Rightarrow> None
           | Some ob \<Rightarrow>
               (case CancelOrder h ob ''A'' of
                  (e, h', ob') \<Rightarrow> Some (e, Status (h' 0), orders_map ob' ''A'', bids ob', asks ob'))))"

text \<open>A bid side whose first level is empty while an order rests on the second, and a
  sell order that this resting bid could fill.\<close>

definition C10_store :: store where
  "C10_store = no_orders
     (0 := new_order ''bid'' LimitOrder BuyOrder 9 5,
      1 := new_order ''sell'' LimitOrder SellOrder 9 5)"

definition C10_book :: OrderBook where
  "C10_book = book_X [\<lparr>price = 10, orders = [], volume = 0\<rparr>, \<lparr>price = 9, orders = [0], volume = 5\<rparr>]
                     [] [''bid'' \<mapsto> 0]"

section \<open>Evaluation on concrete states\<close>

lemmas eval_defs =
  ProcessOrder_def process_on_book_def processMarketOrder_def matchOrder_def
  best_counterparty_def price_break_def trade_of_def execute_def fill_def updateOrderStatus_def
  make_trade_def min_qty_def GetBestBid_def GetBestAsk_def best_of_def AddOrder_def CancelOrder_def
  heap_Push_def priceLevels_Push_def NewOrderBook_def NewMatchingEngine_def GetOrderBook_def
  GetOrderBookSnapshot_def snapshot_side_def remove_at_def new_order_def no_orders_def book_X_def
  level_remaining_def volume_consistent_def Let_def

lemma fuel_3: "(3::nat) = Suc (Suc (Suc 0))"
  by simp

section \<open>No price level is ever installed\<close>

lemma up_length: "length (up lt h j) = length h"
proof (induction lt h j rule: up.induct)
  case (1 lt h j)
  show ?case
    by (subst up.simps) (simp add: Let_def 1)
qed

lemma heap_Push_length: "length (heap_Push lt levels x) = length levels"
  by (simp add: heap_Push_def priceLevels_Push_def up_length)

lemma heap_Push_Nil: "heap_Push lt [] x = []"
  using heap_Push_length [of lt "[]" x] by simp

text \<open>\<^verbatim>\<open>AddOrder\<close> and \<^verbatim>\<open>CancelOrder\<close> keep the number of levels of either side.\<close>

lemma AddOrder_levels:
  "AddOrder h ob p = (e, h', ob') \<Longrightarrow>
     length (bids ob') = length (bids ob) \<and> length (asks ob') = length (asks ob)"
  by (auto simp: AddOrder_def Let_def heap_Push_length split: if_splits option.splits)

lemma CancelOrder_levels:
  "CancelOrder h ob oid = (e, h', ob') \<Longrightarrow>
     length (bids ob') = length (bids ob) \<and> length (asks ob') = length (asks ob)"
  by (auto simp: CancelOrder_def Let_def split: if_splits option.splits)

text \<open>On a book without levels the loop of \<^verbatim>\<open>matchOrder\<close> leaves at once, with no
  trade and the state as it was.\<close>

lemma matchOrder_no_levels:
  assumes "bids ob = []" and "asks ob = []"
  shows "\<exists>e. matchOrder (Suc n) h ob p = Some ([], e, h, ob)"
  using assms
  by (simp add: matchOrder_def best_counterparty_def GetBestBid_def GetBestAsk_def best_of_def)

lemma process_on_book_no_levels:
  assumes "bids ob = []" and "asks ob = []"
  shows "\<exists>e h' ob'. process_on_book (Suc n) h ob p = Some (([], e), h', ob')
           \<and> bids ob' = [] \<and> asks ob' = []"
proof -
  obtain e where m: "matchOrder (Suc n) h ob p = Some ([], e, h, ob)"
    using matchOrder_no_levels [OF assms] by blast
  obtain e2 h2 ob2 where a: "AddOrder h ob p = (e2, h2, ob2)"
    by (metis prod_cases3)
  from AddOrder_levels [OF a] assms have "bids ob2 = []" "asks ob2 = []"
    by simp_all
  with m a assms show ?thesis
    by (cases e; cases e2) (auto simp: process_on_book_def processMarketOrder_def)
qed

text \<open>Hence, from a new engine on, whatever is submitted: every submission returns, no
  submission returns a trade, and no book ever has a level.\<close>

lemma ProcessOrder_never_trades:
  assumes "no_levels obs"
  shows "\<exists>e h' obs'. ProcessOrder (Suc n) h obs p = Some (([], e), h', obs') \<and> no_levels obs'"
proof -
  define ob where "ob = (case obs (Symbol (h p)) of Some ob \<Rightarrow> ob | None \<Rightarrow> NewOrderBook (Symbol (h p)))"
  have "bids ob = []" "asks ob = []"
    using assms by (auto simp: ob_def no_levels_def NewOrderBook_def split: option.splits)
  then obtain e h' ob' where r: "process_on_book (Suc n) h ob p = Some (([], e), h', ob')"
      and e: "bids ob' = []" "asks ob' = []"
    using process_on_book_no_levels by blast
  have "no_levels (obs(Symbol (h p) \<mapsto> ob'))"
    using assms e by (auto simp: no_levels_def)
  with r show ?thesis
    by (simp add: ProcessOrder_def Let_def ob_def [symmetric])
qed

lemma NewMatchingEngine_no_levels: "no_levels NewMatchingEngine"
  by (simp add: no_levels_def NewMatchingEngine_def)

text \<open>An order that arrives with nothing remaining (as the HTTP layer builds it) is
  neither matched nor entered in the book, and no error is returned.\<close>

lemma ProcessOrder_nothing_remaining:
  assumes "\<not> RemainingQty (h p) > 0"
  shows "ProcessOrder (Suc n) h obs p =
           Some (([], None), h,
                 obs(Symbol (h p) \<mapsto> (case obs (Symbol (h p)) of
                                          Some ob \<Rightarrow> ob
                                        | None \<Rightarrow> NewOrderBook (Symbol (h p)))))"
  using assms
  by (simp add: ProcessOrder_def process_on_book_def processMarketOrder_def matchOrder_def Let_def)

section \<open>The scenarios\<close>

text \<open>
  Claim C2 (scenario S1). On a new engine, BUY LIMIT 100 @ 10 and then SELL LIMIT
  60 @ 10 are to give one trade of 60 at price 10, the buy order PARTIAL with 40
  remaining, the sell order FILLED, and the snapshot bids \<open>[(10, 40, 1)]\<close>, asks empty.
  The code gives no trade: the buy order is entered in the id map only, since its
  new level never reaches the book's slice; both orders end NEW with their whole
  quantity remaining, and the snapshot is empty on both sides.
\<close>

theorem S1_simple_cross:
  "S1_run = Some (([], None),
                  new_order ''buy'' LimitOrder BuyOrder 10 100,
                  new_order ''sell'' LimitOrder SellOrder 10 60,
                  Inr ([], []))"
  by (simp add: S1_run_def S1_store_def eval_defs fuel_3)

text \<open>On a book that does hold the buy order on a bid level, the trade and the two
  statuses are the expected ones, and the snapshot shows 100 at the level where 40
  remain.\<close>

lemma S1_on_resting_bid:
  "S1_on_resting = Some
     (([\<lparr>TradeSymbol = ''X'', BuyOrderID = ''buy'', SellOrderID = ''sell'', TradePrice = 10,
         TradeQuantity = 60, BuyerUserID = ''user-buy'', SellerUserID = ''user-sell''\<rparr>], None),
      (new_order ''buy'' LimitOrder BuyOrder 10 100)
        \<lparr>FilledQty := 60, RemainingQty := 40, Status := OrderStatusPartial\<rparr>,
      (new_order ''sell'' LimitOrder SellOrder 10 60)
        \<lparr>FilledQty := 60, RemainingQty := 0, Status := OrderStatusFilled\<rparr>,
      Inr ([(10, 100, 1)], []))"
  by (simp add: S1_on_resting_def S1_store_def S1_resting_def eval_defs fuel_3)

text \<open>
  Claim C7 (scenario S3). On a new engine, SELL LIMIT 10 @ 5 and then BUY MARKET 25
  are to return one trade of 10 at price 5 and leave the buy order REJECTED with 10
  filled and 15 remaining. The code returns no trade with the error: the sell order
  is on no level, the market order finds no ask and is rejected with nothing filled
  and 25 remaining.
\<close>

theorem S3_market_order:
  "S3_run = Some (([], Some MarketOrderNotFilled),
                  new_order ''sell'' LimitOrder SellOrder 5 10,
                  (new_order ''buy'' MarketOrder BuyOrder 0 25)\<lparr>Status := OrderStatusRejected\<rparr>,
                  Inr ([], []))"
  by (simp add: S3_run_def S3_store_def eval_defs fuel_3)

text \<open>On a book that does hold the sell order on an ask level, the market order
  trades 10 at 5 and is rejected with 10 filled and 15 remaining.\<close>

lemma S3_on_resting_ask:
  "S3_on_resting = Some
     (([\<lparr>TradeSymbol = ''X'', BuyOrderID = ''buy'', SellOrderID = ''sell'', TradePrice = 5,
         TradeQuantity = 10, BuyerUserID = ''user-buy'', SellerUserID = ''user-sell''\<rparr>],
       Some MarketOrderNotFilled),
      (new_order ''sell'' LimitOrder SellOrder 5 10)
        \<lparr>FilledQty := 10, RemainingQty := 0, Status := OrderStatusCancelled\<rparr>,
      (new_order ''buy'' MarketOrder BuyOrder 0 25)
        \<lparr>FilledQty := 10, RemainingQty := 15, Status := OrderStatusRejected\<rparr>,
      Inr ([], []))"
  by (simp add: S3_on_resting_def S3_store_def S3_resting_def eval_defs fuel_3)

text \<open>
  Claim C5 (scenario S4). Orders of one level are to be matched in admission order;
  on a new engine, after SELL LIMIT 10 @ 7 as A and as B, BUY LIMIT 10 @ 7 is to
  trade once, with A, and leave asks \<open>[(7, 10, 1)]\<close>. The code gives no trade: A and B
  are on no level, the buy order finds no ask, and the three orders end NEW in the id
  map with a snapshot empty on both sides.
\<close>

theorem S4_fifo_within_price:
  "S4_run = Some (([], None),
                  (new_order ''A'' LimitOrder SellOrder 7 10,
                   new_order ''B'' LimitOrder SellOrder 7 10,
                   new_order ''buy'' LimitOrder BuyOrder 7 10),
                  Inr ([], []))"
  by (simp add: S4_run_def S4_store_def eval_defs fuel_3)

text \<open>On a book that does hold A and B on one ask level, the buy order trades with
  A and not with B; B stays alone on the level, whose volume stays 20.\<close>

lemma S4_on_resting_asks:
  "S4_on_resting = Some
     (([\<lparr>TradeSymbol = ''X'', BuyOrderID = ''buy'', SellOrderID = ''A'', TradePrice = 7,
         TradeQuantity = 10, BuyerUserID = ''user-buy'', SellerUserID = ''user-A''\<rparr>], None),
      ((new_order ''A'' LimitOrder SellOrder 7 10)
         \<lparr>FilledQty := 10, RemainingQty := 0, Status := OrderStatusCancelled\<rparr>,
       new_order ''B'' LimitOrder SellOrder 7 10,
       (new_order ''buy'' LimitOrder BuyOrder 7 10)
         \<lparr>FilledQty := 10, RemainingQty := 0, Status := OrderStatusFilled\<rparr>),
      Inr ([], [(7, 20, 1)]),
      [\<lparr>price = 7, orders = [1], volume = 20\<rparr>])"
  by (simp add: S4_on_resting_def S4_store_def S4_resting_def eval_defs fuel_3)


section \<open>The loop of matchOrder\<close>

text \<open>A property of store and book that the execution of a match and
  \<^verbatim>\<open>CancelOrder\<close> keep holds when the loop returns.\<close>

lemma matchOrder_loop_invariant:
  assumes run: "matchOrder_loop n h ob p acc = Some (ts, e, h', ob')"
    and init: "I h ob"
    and exec: "\<And>h ob m. I h ob \<Longrightarrow> best_counterparty h ob p = Inr (Some m) \<Longrightarrow> I (execute h p m) ob"
    and cancel: "\<And>h ob oid e h' ob'. I h ob \<Longrightarrow> CancelOrder h ob oid = (e, h', ob') \<Longrightarrow> I h' ob'"
  shows "I h' ob'"
  using run init
proof (induction n arbitrary: h ob acc)
  case 0
  then show ?case by simp
next
  case (Suc n)
  show ?case
  proof (cases "RemainingQty (h p) > 0")
    case False
    with Suc.prems show ?thesis by simp
  next
    case rem: True
    show ?thesis
    proof (cases "best_counterparty h ob p")
      case (Inl err)
      with Suc.prems rem show ?thesis by simp
    next
      case (Inr mo)
      show ?thesis
      proof (cases mo)
        case None
        with Suc.prems rem Inr show ?thesis by simp
      next
        case (Some m)
        have ex: "I (execute h p m) ob"
          using Suc.prems(2) Inr Some by (simp add: exec)
        show ?thesis
        proof (cases "price_break (h p) (h m)")
          case True
          with Suc.prems rem Inr Some show ?thesis by simp
        next
          case pb: False
          show ?thesis
          proof (cases "Status (execute h p m m) = OrderStatusFilled")
            case False
            with Suc.prems rem Inr Some pb
            have "matchOrder_loop n (execute h p m) ob p (acc @ [trade_of h p m]) = Some (ts, e, h', ob')"
              by simp
            then show ?thesis using ex by (rule Suc.IH)
          next
            case True
            obtain e5 h5 ob5 where c: "CancelOrder (execute h p m) ob (ID (execute h p m m)) = (e5, h5, ob5)"
              by (metis prod_cases3)
            have i5: "I h5 ob5"
              using ex c by (rule cancel)
            show ?thesis
            proof (cases e5)
              case None
              with Suc.prems rem Inr Some pb True c
              have "matchOrder_loop n h5 ob5 p (acc @ [trade_of h p m]) = Some (ts, e, h', ob')"
                by simp
              then show ?thesis using i5 by (rule Suc.IH)
            next
              case (Some err)
              with Suc.prems rem Inr \<open>mo = Some m\<close> pb True c i5 show ?thesis by simp
            qed
          qed
        qed
      qed
    qed
  qed
qed

text \<open>A result does not depend on the number of iterations allowed beyond those it
  needed.\<close>

lemma matchOrder_loop_more_fuel:
  "matchOrder_loop n h ob p acc = Some r \<Longrightarrow> matchOrder_loop (n + k) h ob p acc = Some r"
proof (induction n arbitrary: h ob acc)
  case 0
  then show ?case by simp
next
  case (Suc n)
  show ?case
  proof (cases "RemainingQty (h p) > 0")
    case False
    with Suc.prems show ?thesis by simp
  next
    case rem: True
    show ?thesis
    proof (cases "best_counterparty h ob p")
      case (Inl err)
      with Suc.prems rem show ?thesis by simp
    next
      case (Inr mo)
      show ?thesis
      proof (cases mo)
        case None
        with Suc.prems rem Inr show ?thesis by simp
      next
        case (Some m)
        show ?thesis
        proof (cases "price_break (h p) (h m)")
          case True
          with Suc.prems rem Inr Some show ?thesis by simp
        next
          case pb: False
          show ?thesis
          proof (cases "Status (execute h p m m) = OrderStatusFilled")
            case False
            with Suc.prems rem Inr Some pb
            have "matchOrder_loop n (execute h p m) ob p (acc @ [trade_of h p m]) = Some r"
              by simp
            then have "matchOrder_loop (n + k) (execute h p m) ob p (acc @ [trade_of h p m]) = Some r"
              by (rule Suc.IH)
            with rem Inr Some pb False show ?thesis by simp
          next
            case True
            obtain e5 h5 ob5 where c: "CancelOrder (execute h p m) ob (ID (execute h p m m)) = (e5, h5, ob5)"
              by (metis prod_cases3)
            show ?thesis
            proof (cases e5)
              case None
              with Suc.prems rem Inr Some pb True c
              have "matchOrder_loop n h5 ob5 p (acc @ [trade_of h p m]) = Some r"
                by simp
              then have "matchOrder_loop (n + k) h5 ob5 p (acc @ [trade_of h p m]) = Some r"
                by (rule Suc.IH)
              with rem Inr Some pb True c None show ?thesis by simp
            next
              case (Some err)
              with Suc.prems rem Inr \<open>mo = Some m\<close> pb True c show ?thesis by simp
            qed
          qed
        qed
      qed
    qed
  qed
qed

section \<open>Best bid and best ask\<close>

text \<open>
  Claim C10. Asked with the book's own symbol, \<^verbatim>\<open>GetBestBid\<close> and \<^verbatim>\<open>GetBestAsk\<close>
  return no order and no error exactly when the side has no level or its first level
  holds no order; they return an error exactly when the symbol asked is not the
  book's. When the loop of \<^verbatim>\<open>matchOrder\<close> gets no order and no error, it stops and
  returns the trades made so far, without error and without touching store or book.
\<close>

theorem best_order_absent_without_error:
  "(GetBestBid ob (symbol ob) = Inr None
      \<longleftrightarrow> (case bids ob of [] \<Rightarrow> True | level # _ \<Rightarrow> orders level = [])) \<and>
   (GetBestAsk ob (symbol ob) = Inr None
      \<longleftrightarrow> (case asks ob of [] \<Rightarrow> True | level # _ \<Rightarrow> orders level = [])) \<and>
   ((\<exists>err. GetBestBid ob smb = Inl err) \<longleftrightarrow> smb \<noteq> symbol ob) \<and>
   ((\<exists>err. GetBestAsk ob smb = Inl err) \<longleftrightarrow> smb \<noteq> symbol ob) \<and>
   (best_counterparty h ob p = Inr None
      \<longrightarrow> matchOrder_loop (Suc n) h ob p trades = Some (trades, None, h, ob))"
proof -
  have bid: "GetBestBid ob (symbol ob) = Inr None
      \<longleftrightarrow> (case bids ob of [] \<Rightarrow> True | level # _ \<Rightarrow> orders level = [])"
    by (simp add: GetBestBid_def best_of_def split: list.splits)
  have ask: "GetBestAsk ob (symbol ob) = Inr None
      \<longleftrightarrow> (case asks ob of [] \<Rightarrow> True | level # _ \<Rightarrow> orders level = [])"
    by (simp add: GetBestAsk_def best_of_def split: list.splits)
  have bid_err: "(\<exists>err. GetBestBid ob smb = Inl err) \<longleftrightarrow> smb \<noteq> symbol ob"
    by (simp add: GetBestBid_def)
  have ask_err: "(\<exists>err. GetBestAsk ob smb = Inl err) \<longleftrightarrow> smb \<noteq> symbol ob"
    by (simp add: GetBestAsk_def)
  have stop: "best_counterparty h ob p = Inr None
      \<longrightarrow> matchOrder_loop (Suc n) h ob p trades = Some (trades, None, h, ob)"
    by simp
  from bid ask bid_err ask_err stop show ?thesis
    by blast
qed

text \<open>The book of the instance has an empty first bid level and an order resting on
  the second: the best bid is absent, and the sell order that this resting bid could
  fill is not matched.\<close>

theorem best_order_absent_without_error_witness:
  "GetBestBid C10_book ''X'' = Inr None \<and>
   GetBestAsk C10_book ''X'' = Inr None \<and>
   GetBestBid C10_book ''Y'' = Inl (InvalidSymbol ''Y'') \<and>
   GetBestAsk C10_book ''Y'' = Inl (InvalidSymbol ''Y'') \<and>
   best_counterparty C10_store C10_book 1 = Inr None \<and>
   matchOrder_loop 1 C10_store C10_book 1 [] = Some ([], None, C10_store, C10_book)"
proof -
  have none: "best_counterparty C10_store C10_book 1 = Inr None"
    by (simp add: C10_store_def C10_book_def eval_defs)
  have "matchOrder_loop (Suc 0) C10_store C10_book 1 [] = Some ([], None, C10_store, C10_book)"
    using best_order_absent_without_error [of C10_book "''Y''" C10_store 1 0 "[]"] none
    by blast
  moreover have "GetBestBid C10_book ''X'' = Inr None" "GetBestAsk C10_book ''X'' = Inr None"
    using best_order_absent_without_error [of C10_book "''Y''" C10_store 1 0 "[]"]
    by (simp_all add: C10_book_def book_X_def)
  moreover have "GetBestBid C10_book ''Y'' = Inl (InvalidSymbol ''Y'')"
      "GetBestAsk C10_book ''Y'' = Inl (InvalidSymbol ''Y'')"
    by (simp_all add: C10_book_def eval_defs)
  ultimately show ?thesis
    using none by simp
qed


section \<open>Fill counters, statuses and volumes\<close>


text \<open>The match itself keeps the sum of filled and remaining quantity of every
  order. Whatever was filled before, an order that \<^verbatim>\<open>AddOrder\<close> accepts has nothing
  filled afterwards.\<close>

lemma execute_keeps_total:
  "FilledQty (execute h p m a) + RemainingQty (execute h p m a) = FilledQty (h a) + RemainingQty (h a)"
  by (simp add: execute_def fill_def updateOrderStatus_def Let_def)

lemma AddOrder_reinitialises:
  assumes "AddOrder h ob p = (None, h', ob')"
  shows "FilledQty (h' p) = 0 \<and> RemainingQty (h' p) = Quantity (h p) \<and> Status (h' p) = OrderStatusNew"
  using assms by (auto simp: AddOrder_def Let_def split: if_splits)


text \<open>
  Claim C4. An order whose remaining quantity a match brings to 0 is to become
  FILLED, and a filled maker is to leave the book and stay FILLED (the first sell
  order of scenario S2). On a new engine the three submissions of S2 give no trade, and
  the first sell order stays NEW. On a book that holds the two sell orders, the match
  sets the first sell order to FILLED with 0 remaining; \<^verbatim>\<open>matchOrder\<close> then removes it
  with \<^verbatim>\<open>CancelOrder\<close>, which sets its status to CANCELLED. The emptied level stays
  first on the ask side, so the loop ends after this one trade, with the buy order
  PARTIAL, and the first sell order stays in the id map.
\<close>

theorem filled_maker_ends_cancelled:
  "S2_run = Some (([], None),
                  (new_order ''sell-11'' LimitOrder SellOrder 11 50,
                   new_order ''sell-12'' LimitOrder SellOrder 12 50,
                   new_order ''buy'' LimitOrder BuyOrder 12 80),
                  Inr ([], [])) \<and>
   S2_first_match = (OrderStatusFilled, 0) \<and>
   S2_on_resting = Some
     ([\<lparr>TradeSymbol = ''X'', BuyOrderID = ''buy'', SellOrderID = ''sell-11'', TradePrice = 11,
        TradeQuantity = 50, BuyerUserID = ''user-buy'', SellerUserID = ''user-sell-11''\<rparr>],
      None, OrderStatusCancelled, OrderStatusPartial,
      [\<lparr>price = 11, orders = [], volume = 50\<rparr>, \<lparr>price = 12, orders = [1], volume = 50\<rparr>],
      Some 0)"
  by (simp add: S2_run_def S2_first_match_def S2_on_resting_def S2_store_def S2_resting_def
      eval_defs fuel_3)


section \<open>Validation of a submission\<close>

text \<open>
  Claim C6, as stated: a submission with an id already in the book, a quantity that is
  not positive, or, for LIMIT, a price that is not positive, is an error to the caller
  and changes nothing. It fails on a new engine: BUY LIMIT 10 @ 0 returns no error and
  is entered in the id map; SELL LIMIT of quantity 0 and SELL MARKET of quantity -5
  return no error (and nothing is entered).
\<close>

theorem price_and_quantity_unchecked_counterexample:
  "C6_submit 0 ''price-0'' = Some (([], None), Some (Some 0)) \<and>
   C6_submit 1 ''quantity-0'' = Some (([], None), Some None) \<and>
   C6_submit 2 ''quantity-neg'' = Some (([], None), Some None)"
  by (simp add: C6_submit_def C6_store_def eval_defs)

text \<open>
  Claim C6, amended. The core checks the id only. \<^verbatim>\<open>AddOrder\<close> refuses an order
  whose id is in the id map of the book, with the error that the order exists, and
  changes nothing. \<^verbatim>\<open>ProcessOrder\<close> calls it after matching, for an order that is not
  MARKET and has a positive remaining quantity; when the book offers no order to match,
  the submission returns this error and no trade, and store and engine are as before.
\<close>

theorem duplicate_id_refused:
  "(orders_map ob (ID (h p)) \<noteq> None
      \<longrightarrow> AddOrder h ob p = (Some (OrderAlreadyExists (ID (h p))), h, ob)) \<and>
   (obs (Symbol (h p)) = Some ob \<and> orders_map ob (ID (h p)) \<noteq> None \<and>
    Type (h p) \<noteq> MarketOrder \<and> RemainingQty (h p) > 0 \<and> best_counterparty h ob p = Inr None
      \<longrightarrow> ProcessOrder (Suc n) h obs p = Some (([], Some (OrderAlreadyExists (ID (h p)))), h, obs))"
proof -
  have add: "AddOrder h ob p = (Some (OrderAlreadyExists (ID (h p))), h, ob)"
    if "orders_map ob (ID (h p)) \<noteq> None"
    using that by (simp add: AddOrder_def)
  have "ProcessOrder (Suc n) h obs p = Some (([], Some (OrderAlreadyExists (ID (h p)))), h, obs)"
    if b: "obs (Symbol (h p)) = Some ob" and d: "orders_map ob (ID (h p)) \<noteq> None"
      and t: "Type (h p) \<noteq> MarketOrder" and r: "RemainingQty (h p) > 0"
      and n: "best_counterparty h ob p = Inr None"
  proof -
    have m: "matchOrder (Suc n) h ob p = Some ([], None, h, ob)"
      using r n by (simp add: matchOrder_def)
    have "process_on_book (Suc n) h ob p = Some (([], Some (OrderAlreadyExists (ID (h p)))), h, ob)"
      using t r m add [OF d] by (simp add: process_on_book_def)
    moreover have "obs(Symbol (h p) \<mapsto> ob) = obs"
      using b by (rule map_upd_triv)
    ultimately show ?thesis
      using b by (simp add: ProcessOrder_def Let_def)
  qed
  with add show ?thesis
    by blast
qed

text \<open>The instance: the book holds an order with id \<open>dup\<close> and has no level; a second
  order object with the same id is submitted.\<close>

theorem duplicate_id_refused_witness:
  "orders_map (book_X [] [] [''dup'' \<mapsto> 0]) (ID (C6_dup_store 1)) = Some 0 \<and>
   AddOrder C6_dup_store (book_X [] [] [''dup'' \<mapsto> 0]) 1
     = (Some (OrderAlreadyExists ''dup''), C6_dup_store, book_X [] [] [''dup'' \<mapsto> 0]) \<and>
   ProcessOrder 1 C6_dup_store C6_dup_books 1
     = Some (([], Some (OrderAlreadyExists ''dup'')), C6_dup_store, C6_dup_books)"
proof -
  let ?ob = "book_X [] [] [''dup'' \<mapsto> 0]"
  have i: "ID (C6_dup_store 1) = ''dup''" and s: "Symbol (C6_dup_store 1) = ''X''"
    and t: "Type (C6_dup_store 1) \<noteq> MarketOrder" and r: "RemainingQty (C6_dup_store 1) > 0"
    by (simp_all add: C6_dup_store_def new_order_def)
  have b: "C6_dup_books (Symbol (C6_dup_store 1)) = Some ?ob"
    using s by (simp add: C6_dup_books_def)
  have d: "orders_map ?ob (ID (C6_dup_store 1)) = Some 0"
    using i by (simp add: book_X_def)
  have n: "best_counterparty C6_dup_store ?ob 1 = Inr None"
    by (simp add: C6_dup_store_def eval_defs)
  from duplicate_id_refused [of ?ob C6_dup_store 1 C6_dup_books 0] b d t r n i s
  show ?thesis
    by simp
qed

section \<open>STOP orders\<close>





section \<open>The id map\<close>

lemma CancelOrder_orders_map:
  "CancelOrder h ob oid = (e, h', ob') \<Longrightarrow> orders_map ob' = orders_map ob"
  by (auto simp: CancelOrder_def Let_def split: if_splits option.splits)

lemma matchOrder_loop_orders_map:
  assumes "matchOrder_loop n h ob p acc = Some (ts, e, h', ob')"
  shows "orders_map ob' = orders_map ob"
  using assms
  by (rule matchOrder_loop_invariant [where I = "\<lambda>h b. orders_map b = orders_map ob"])
     (simp_all add: CancelOrder_orders_map)

lemma AddOrder_orders_map:
  "AddOrder h ob p = (None, h', ob') \<Longrightarrow> orders_map ob' = (orders_map ob)(ID (h p) \<mapsto> p)"
  by (auto simp: AddOrder_def Let_def split: if_splits)

lemma CancelOrder_twice:
  assumes "CancelOrder h ob oid = (None, h', ob')"
  shows "map_option (\<lambda>p. Status (h' p)) (orders_map ob' oid) = Some OrderStatusCancelled
       \<and> CancelOrder h' ob' oid = (Some (OrderAlreadyCancelled oid), h', ob')"
proof -
  from assms obtain p where p: "orders_map ob oid = Some p"
    by (auto simp: CancelOrder_def split: option.splits)
  have m: "orders_map ob' = orders_map ob"
    using assms by (rule CancelOrder_orders_map)
  from assms p have h': "h' = h(p := (h p)\<lparr>Status := OrderStatusCancelled\<rparr>)"
    by (auto simp: CancelOrder_def Let_def split: if_splits)
  from p m h' show ?thesis
    by (simp add: CancelOrder_def)
qed

lemma find_order_Some:
  "find_order h xs oid = Some i \<Longrightarrow> i < length xs \<and> ID (h (xs ! i)) = oid"
  by (induction xs arbitrary: i) (auto split: if_splits)

lemma find_level_Some:
  "find_level ls pr = Some i \<Longrightarrow> i < length ls \<and> price (ls ! i) = pr"
  by (induction ls arbitrary: i) (auto split: if_splits)

lemma find_order_status:
  "find_order (h(p := (h p)\<lparr>Status := s\<rparr>)) xs oid = find_order h xs oid"
  by (induction xs) auto

lemma remove_at_distinct:
  assumes "distinct xs" and "i < length xs"
  shows "xs ! i \<notin> set (remove_at i xs)"
proof -
  have "xs = take i xs @ xs ! i # drop (Suc i) xs"
    using assms(2) by (rule id_take_nth_drop)
  then have "distinct (take i xs @ xs ! i # drop (Suc i) xs)"
    using assms(1) by simp
  then show ?thesis
    by (auto simp: remove_at_def)
qed

text \<open>A cancellation takes the order out of the first level of its price on its side,
  and lowers the volume of that level by what remained of the order.\<close>

lemma CancelOrder_leaves_level:
  assumes c: "CancelOrder h ob oid = (None, h', ob')"
    and p: "orders_map ob oid = Some p"
    and l: "find_level (side_levels (Side (h p)) ob) (Price (h p)) = Some li"
    and i: "find_order h (orders (side_levels (Side (h p)) ob ! li)) oid = Some i"
    and at: "orders (side_levels (Side (h p)) ob ! li) ! i = p"
    and d: "distinct (orders (side_levels (Side (h p)) ob ! li))"
  shows "p \<notin> set (orders (side_levels (Side (h p)) ob' ! li)) \<and>
         volume (side_levels (Side (h p)) ob' ! li)
           = volume (side_levels (Side (h p)) ob ! li) - RemainingQty (h p)"
proof -
  let ?levels = "side_levels (Side (h p)) ob"
  have li: "li < length ?levels"
    using find_level_Some [OF l] by simp
  have il: "i < length (orders (?levels ! li))"
    using find_order_Some [OF i] by simp
  have nc: "Status (h p) \<noteq> OrderStatusCancelled"
    using c p by (auto simp: CancelOrder_def)
  have "side_levels (Side (h p)) ob'
          = ?levels[li := (?levels ! li)\<lparr>orders := remove_at i (orders (?levels ! li)),
                                        volume := volume (?levels ! li) - RemainingQty (h p)\<rparr>]"
    using c p nc l i
    by (auto simp: CancelOrder_def Let_def side_levels_def find_order_status)
  then have "orders (side_levels (Side (h p)) ob' ! li) = remove_at i (orders (?levels ! li))"
      and v: "volume (side_levels (Side (h p)) ob' ! li) = volume (?levels ! li) - RemainingQty (h p)"
    using li by simp_all
  with remove_at_distinct [OF d il] at show ?thesis
    by simp
qed

text \<open>
  Claim C9, as stated: the id map holds exactly the orders resting on the book; a
  cancellation removes the order from its level and from the id map. It fails on a
  new engine: BUY LIMIT 10 @ 5 is submitted and then cancelled on its book; the
  cancellation succeeds, the order is CANCELLED and on no level, and the id map still
  holds it.
\<close>

theorem cancelled_order_in_id_map_counterexample:
  "C9_run = Some (None, OrderStatusCancelled, Some 0, [], [])"
  by (simp add: C9_run_def C9_store_def eval_defs)

text \<open>
  Claim C9, amended. The id map holds every order that \<^verbatim>\<open>AddOrder\<close> has entered,
  resting or not, and nothing removes an entry. A cancellation sets the status to
  CANCELLED, takes the order out of its level and leaves the id map as it is, so that
  a second cancellation finds the order and fails because it is cancelled already. The
  loop of \<^verbatim>\<open>matchOrder\<close>, which removes a filled maker from its level by a
  cancellation, leaves the id map as it is. \<^verbatim>\<open>AddOrder\<close> adds the entry of the order.
\<close>

theorem id_map_keeps_every_entry:
  "(CancelOrder h ob oid = (None, h1, ob1)
      \<longrightarrow> orders_map ob1 = orders_map ob \<and>
          map_option (\<lambda>p. Status (h1 p)) (orders_map ob1 oid) = Some OrderStatusCancelled \<and>
          CancelOrder h1 ob1 oid = (Some (OrderAlreadyCancelled oid), h1, ob1)) \<and>
   (CancelOrder h ob oid = (None, h1, ob1) \<and> orders_map ob oid = Some p \<and>
    find_level (side_levels (Side (h p)) ob) (Price (h p)) = Some li \<and>
    find_order h (orders (side_levels (Side (h p)) ob ! li)) oid = Some i \<and>
    orders (side_levels (Side (h p)) ob ! li) ! i = p \<and>
    distinct (orders (side_levels (Side (h p)) ob ! li))
      \<longrightarrow> p \<notin> set (orders (side_levels (Side (h p)) ob1 ! li))) \<and>
   (matchOrder_loop n h ob q acc = Some (ts, e, h2, ob2) \<longrightarrow> orders_map ob2 = orders_map ob) \<and>
   (AddOrder h ob q = (None, h3, ob3) \<longrightarrow> orders_map ob3 = (orders_map ob)(ID (h q) \<mapsto> q))"
  using CancelOrder_orders_map [of h ob oid None h1 ob1] CancelOrder_twice [of h ob oid h1 ob1]
    CancelOrder_leaves_level [of h ob oid h1 ob1 p li i]
    matchOrder_loop_orders_map [of n h ob q acc ts e h2 ob2]
    AddOrder_orders_map [of h ob q h3 ob3]
  by blast


text \<open>The instance: on the book holding A and B on one ask level, B is cancelled; the
  buy order is matched with A, which is filled and removed from the level; the buy
  order is added.\<close>

theorem id_map_keeps_every_entry_witness:
  "fst (CancelOrder S4_store S4_resting ''B'') = None \<and>
   orders_map S4_resting ''B'' = Some 1 \<and>
   orders_map (snd (snd (CancelOrder S4_store S4_resting ''B''))) = orders_map S4_resting \<and>
   Status (fst (snd (CancelOrder S4_store S4_resting ''B'')) 1) = OrderStatusCancelled \<and>
   1 \<notin> set (orders (asks (snd (snd (CancelOrder S4_store S4_resting ''B''))) ! 0)) \<and>
   map_option (\<lambda>(ts, e, h, ob). (orders_map ob, map orders (asks ob))) (matchOrder_loop 3 S4_store S4_resting 2 [])
     = Some (orders_map S4_resting, [[1]]) \<and>
   fst (AddOrder S4_store S4_resting 2) = None \<and>
   orders_map (snd (snd (AddOrder S4_store S4_resting 2))) = (orders_map S4_resting)(''buy'' \<mapsto> 2)"
proof -
  define h1 where "h1 = fst (snd (CancelOrder S4_store S4_resting ''B''))"
  define ob1 where "ob1 = snd (snd (CancelOrder S4_store S4_resting ''B''))"
  define h3 where "h3 = fst (snd (AddOrder S4_store S4_resting 2))"
  define ob3 where "ob3 = snd (snd (AddOrder S4_store S4_resting 2))"
  have c0: "fst (CancelOrder S4_store S4_resting ''B'') = None"
    by (simp add: S4_store_def S4_resting_def eval_defs)
  then have c: "CancelOrder S4_store S4_resting ''B'' = (None, h1, ob1)"
    by (cases "CancelOrder S4_store S4_resting ''B''") (simp add: h1_def ob1_def)
  have a0: "fst (AddOrder S4_store S4_resting 2) = None"
    by (simp add: S4_store_def S4_resting_def eval_defs)
  then have a: "AddOrder S4_store S4_resting 2 = (None, h3, ob3)"
    by (cases "AddOrder S4_store S4_resting 2") (simp add: h3_def ob3_def)
  obtain ts e h2 ob2 where m: "matchOrder_loop 3 S4_store S4_resting 2 [] = Some (ts, e, h2, ob2)"
      and lv: "map orders (asks ob2) = [[1]]"
    by (simp add: S4_store_def S4_resting_def eval_defs fuel_3)
  have p: "orders_map S4_resting ''B'' = Some 1"
    by (simp add: S4_resting_def book_X_def)
  have sd: "side_levels (Side (S4_store 1)) S4_resting = asks S4_resting"
      "side_levels (Side (S4_store 1)) ob1 = asks ob1"
    by (simp_all add: side_levels_def S4_store_def new_order_def)
  have l: "find_level (side_levels (Side (S4_store 1)) S4_resting) (Price (S4_store 1)) = Some 0"
    by (simp add: side_levels_def S4_store_def S4_resting_def new_order_def book_X_def)
  have i: "find_order S4_store (orders (side_levels (Side (S4_store 1)) S4_resting ! 0)) ''B'' = Some 1"
    by (simp add: side_levels_def S4_store_def S4_resting_def new_order_def book_X_def)
  have at: "orders (side_levels (Side (S4_store 1)) S4_resting ! 0) ! 1 = 1"
    by (simp add: side_levels_def S4_store_def S4_resting_def new_order_def book_X_def)
  have d: "distinct (orders (side_levels (Side (S4_store 1)) S4_resting ! 0))"
    by (simp add: side_levels_def S4_store_def S4_resting_def new_order_def book_X_def)
  have i2: "ID (S4_store 2) = ''buy''"
    by (simp add: S4_store_def new_order_def)
  note t = id_map_keeps_every_entry [of S4_store S4_resting "''B''" h1 ob1 1 0 1 3 2 "[]" ts e h2 ob2 h3 ob3]
  from t c have "orders_map ob1 = orders_map S4_resting"
      and "map_option (\<lambda>p. Status (h1 p)) (orders_map ob1 ''B'') = Some OrderStatusCancelled"
    by blast+
  moreover from t c p l i at d have "1 \<notin> set (orders (side_levels (Side (S4_store 1)) ob1 ! 0))"
    by blast
  moreover from t m have "orders_map ob2 = orders_map S4_resting"
    by blast
  moreover from t a have "orders_map ob3 = (orders_map S4_resting)(ID (S4_store 2) \<mapsto> 2)"
    by blast
  ultimately show ?thesis
    using c0 a0 p m lv sd(2) i2 by (simp add: h1_def ob1_def ob3_def)
qed


end
